theory Spec2Isabelle
  imports Main
begin

section \<open>Go strings\<close>

text \<open>
  A Go string is a sequence of bytes, here a \<open>string\<close> (one \<open>char\<close> per byte).
  The three functions of package \<open>strings\<close> that the classification rule uses are
  written out on bytes.

  \<open>strings.TrimSpace\<close> removes leading and trailing white space as
  \<open>unicode.IsSpace\<close> defines it: the six ASCII characters tab, line feed, vertical tab,
  form feed, carriage return and space, and the code points U+0085, U+00A0, U+1680,
  U+2000 to U+200A, U+2028, U+2029, U+202F, U+205F and U+3000, which appear in a Go
  string as their UTF-8 encodings.
\<close>

definition asciiSpace :: "string" where
  "asciiSpace = [CHR 0x09, CHR 0x0A, CHR 0x0B, CHR 0x0C, CHR 0x0D, CHR 0x20]"

definition unicodeSpace2 :: "string list" where
  "unicodeSpace2 = [[CHR 0xC2, CHR 0x85], [CHR 0xC2, CHR 0xA0]]"

definition unicodeSpace3 :: "string list" where
  "unicodeSpace3 =
    [[CHR 0xE1, CHR 0x9A, CHR 0x80],
     [CHR 0xE2, CHR 0x80, CHR 0x80], [CHR 0xE2, CHR 0x80, CHR 0x81],
     [CHR 0xE2, CHR 0x80, CHR 0x82], [CHR 0xE2, CHR 0x80, CHR 0x83],
     [CHR 0xE2, CHR 0x80, CHR 0x84], [CHR 0xE2, CHR 0x80, CHR 0x85],
     [CHR 0xE2, CHR 0x80, CHR 0x86], [CHR 0xE2, CHR 0x80, CHR 0x87],
     [CHR 0xE2, CHR 0x80, CHR 0x88], [CHR 0xE2, CHR 0x80, CHR 0x89],
     [CHR 0xE2, CHR 0x80, CHR 0x8A],
     [CHR 0xE2, CHR 0x80, CHR 0xA8], [CHR 0xE2, CHR 0x80, CHR 0xA9],
     [CHR 0xE2, CHR 0x80, CHR 0xAF], [CHR 0xE2, CHR 0x81, CHR 0x9F],
     [CHR 0xE3, CHR 0x80, CHR 0x80]]"

text \<open>
  \<open>leadingSpace s\<close> is the number of bytes of the white-space character \<open>s\<close> starts
  with, and 0 when it starts with none; \<open>trailingSpace\<close> is the same at the end.
\<close>

definition leadingSpace :: "string \<Rightarrow> nat" where
  "leadingSpace s =
    (if s \<noteq> [] \<and> List.member asciiSpace (hd s) then 1
     else if 2 \<le> length s \<and> List.member unicodeSpace2 (take 2 s) then 2
     else if 3 \<le> length s \<and> List.member unicodeSpace3 (take 3 s) then 3
     else 0)"

definition trailingSpace :: "string \<Rightarrow> nat" where
  "trailingSpace s =
    (if s \<noteq> [] \<and> List.member asciiSpace (last s) then 1
     else if 2 \<le> length s \<and> List.member unicodeSpace2 (drop (length s - 2) s) then 2
     else if 3 \<le> length s \<and> List.member unicodeSpace3 (drop (length s - 3) s) then 3
     else 0)"

function TrimLeftSpace :: "string \<Rightarrow> string" where
  "TrimLeftSpace s =
    (if leadingSpace s = 0 then s else TrimLeftSpace (drop (leadingSpace s) s))"
  by pat_completeness auto
termination
proof (relation "measure length")
  show "wf (measure length)" by simp
next
  fix s :: string
  assume "leadingSpace s \<noteq> 0"
  moreover have "s \<noteq> []" using calculation by (auto simp: leadingSpace_def)
  ultimately show "(drop (leadingSpace s) s, s) \<in> measure length" by simp
qed

function TrimRightSpace :: "string \<Rightarrow> string" where
  "TrimRightSpace s =
    (if trailingSpace s = 0 then s
     else TrimRightSpace (take (length s - trailingSpace s) s))"
  by pat_completeness auto
termination
proof (relation "measure length")
  show "wf (measure length)" by simp
next
  fix s :: string
  assume "trailingSpace s \<noteq> 0"
  moreover have "s \<noteq> []" using calculation by (auto simp: trailingSpace_def)
  ultimately show "(take (length s - trailingSpace s) s, s) \<in> measure length" by simp
qed

definition TrimSpace :: "string \<Rightarrow> string" where
  "TrimSpace s = TrimRightSpace (TrimLeftSpace s)"

text \<open>
  \<open>strings.ToLower\<close> maps the ASCII letters A to Z to a to z. Bytes outside ASCII are
  left as they are here; Go maps the letters they encode by the Unicode tables, and no
  letter outside ASCII has \<open>n\<close> or \<open>o\<close> as its lower case, so a test of the prefix
  \<open>no\<close> on the result reads the same two bytes either way.
\<close>

definition toLowerByte :: "char \<Rightarrow> char" where
  "toLowerByte c =
    (if (65::nat) \<le> of_char c \<and> (of_char c :: nat) \<le> 90
     then char_of ((of_char c :: nat) + 32) else c)"

definition ToLower :: "string \<Rightarrow> string" where
  "ToLower s = map toLowerByte s"

definition HasPrefix :: "string \<Rightarrow> string \<Rightarrow> bool" where
  "HasPrefix s pre = (length pre \<le> length s \<and> take (length pre) s = pre)"




section \<open>The classification rule\<close>

text \<open>
  The expression of \<open>Handler.Upload\<close> (handler.go, line 139) that derives the food
  flag from a stored description.
\<close>

definition isFoodRule :: "string \<Rightarrow> bool" where
  "isFoodRule description = (\<not> HasPrefix (ToLower (TrimSpace description)) ''no'')"

text \<open>
  \<open>strings.Index\<close> and \<open>strings.LastIndex\<close> for a one-byte pattern: the position of
  the first and of the last occurrence, and -1 when there is none.
\<close>

fun IndexByte :: "string \<Rightarrow> char \<Rightarrow> int" where
  "IndexByte [] c = -1"
| "IndexByte (x # xs) c =
    (if x = c then 0 else (let i = IndexByte xs c in if i = -1 then -1 else i + 1))"

definition LastIndexByte :: "string \<Rightarrow> char \<Rightarrow> int" where
  "LastIndexByte s c =
    (let i = IndexByte (rev s) c in if i = -1 then -1 else int (length s) - 1 - i)"

text \<open>The slice expression \<open>s[lo:hi]\<close>, read where \<open>0 \<le> lo \<le> hi \<le> len(s)\<close>.\<close>

definition slice :: "string \<Rightarrow> int \<Rightarrow> int \<Rightarrow> string" where
  "slice s lo hi = take (nat (hi - lo)) (drop (nat lo) s)"

text \<open>The verb \<open>%d\<close> of \<open>fmt\<close> on a number that is not negative.\<close>

fun decimal :: "nat \<Rightarrow> string" where
  "decimal n =
    (if n < 10 then [char_of (48 + n)] else decimal (n div 10) @ [char_of (48 + n mod 10)])"

section \<open>Errors\<close>

text \<open>
  A Go \<open>error\<close> is one of the sentinel values the code compares against
  (\<open>context.DeadlineExceeded\<close>, \<open>sql.ErrNoRows\<close>, \<open>gemini.ErrNotFoodImage\<close>), an
  error that only carries a message (\<open>fmt.Errorf\<close> without \<open>%w\<close>, and what a
  library reports), or an error that wraps another one: \<open>Wrapf pre err post\<close> is
  \<open>fmt.Errorf(pre + "%w" + post, err)\<close>.
\<close>

datatype error =
    DeadlineExceeded
  | ErrNoRows
  | ErrNotFoodImage
  | Errorf string
  | Wrapf string error string

fun Error :: "error \<Rightarrow> string" where
  "Error DeadlineExceeded = ''context deadline exceeded''"
| "Error ErrNoRows = ''sql: no rows in result set''"
| "Error ErrNotFoodImage = ''image does not contain food''"
| "Error (Errorf msg) = msg"
| "Error (Wrapf pre err post) = pre @ Error err @ post"

text \<open>\<open>errors.Is\<close>: the error or one it wraps, at any depth, is the target.\<close>

fun errors_Is :: "error \<Rightarrow> error \<Rightarrow> bool" where
  "errors_Is (Wrapf pre err post) target =
    (if Wrapf pre err post = target then True else errors_Is err target)"
| "errors_Is err target = (err = target)"

text \<open>
  The outcome of a call that returns a pointer and an error, or does not return because
  it panics.
\<close>

datatype 'a result = Panic string | Err error | Ok 'a

section \<open>Recipes\<close>

text \<open>
  The struct \<open>recipe.Recipe\<close> (part\_001, lines 9 to 20). The two maps are written as
  the lists of their entries.
\<close>

record Recipe =
  ImageHash :: string
  Title :: string
  Ingredients :: "(string \<times> string) list"
  Instructions :: "string list"
  ShoppingCart :: "(string \<times> string) list"
  Cuisine :: string
  DietaryPreference :: string
  CookingTime :: string
  Servings :: string
  ImagePath :: string

text \<open>
  \<open>Recipe.UnmarshalJSON\<close> (part\_001, lines 23 to 41) hands its input to
  \<open>json.Unmarshal\<close> with the address of \<open>aux\<close>, itself a pointer to a struct that
  shadows the fields \<open>cuisine\<close> and \<open>dietary_preference\<close> and embeds the recipe.
  The standard decoder is a parameter of the model. On a text it answers with an error,
  or it stores the fields it read (\<open>Decoded\<close>: the recipe's fields, with the two
  shadowed strings in place of \<open>Cuisine\<close> and \<open>DietaryPreference\<close>), or, for the
  JSON value \<open>null\<close>, it sets the pointer \<open>aux\<close> to nil and reports no error; the
  method then reads \<open>aux.Cuisine\<close> through the nil pointer.
\<close>

datatype decoded = DecodeError error | DecodedNull | Decoded Recipe

type_synonym jsonDecoder = "string \<Rightarrow> decoded"

definition Recipe_UnmarshalJSON :: "jsonDecoder \<Rightarrow> string \<Rightarrow> Recipe result" where
  "Recipe_UnmarshalJSON decode data =
    (case decode data of
       DecodeError err \<Rightarrow> Err err
     | DecodedNull \<Rightarrow> Panic ''invalid memory address or nil pointer dereference''
     | Decoded aux \<Rightarrow>
         Ok (aux\<lparr>Cuisine := ToLower (Cuisine aux),
                 DietaryPreference := ToLower (DietaryPreference aux)\<rparr>))"

section \<open>The cloud provider\<close>

text \<open>
  Package \<open>gemini\<close> (client.go). The generative model is a parameter: a call of
  \<open>GenerateContent\<close> with a prompt returns an error or the candidates, each the list of
  the parts of its content.
\<close>

datatype part = Text string | Blob string string | OtherPart

type_synonym generativeModel = "part list \<Rightarrow> error + part list list"

definition ImageData :: "string \<Rightarrow> string \<Rightarrow> part" where
  "ImageData format data = Blob (''image/'' @ format) data"

definition foodPrompt :: string where
  \<open>foodPrompt = ''Analyze the provided image. If it contains food, return a brief recipe description. If not, respond with 'NO' followed by a 5-word description of the image content.''\<close>

definition gemini_IsFoodImage :: "generativeModel \<Rightarrow> string \<Rightarrow> bool \<times> string \<times> error option" where
  "gemini_IsFoodImage model imageData =
    (case model [ImageData ''png'' imageData, Text foodPrompt] of
       Inl err \<Rightarrow> (False, '''', Some err)
     | Inr candidates \<Rightarrow>
         if length candidates = 0 \<or> length (hd candidates) = 0
         then (False, '''', Some (Errorf ''empty response from Gemini for food check''))
         else
           (case hd (hd candidates) of
              Text text \<Rightarrow>
                (let response = ToLower (TrimSpace text)
                 in if HasPrefix response ''no'' then (False, text, None)
                    else (True, text, None))
            | _ \<Rightarrow>
                (False, '''',
                 Some (Errorf ''unexpected response format from Gemini for food check''))))"

definition geminiRecipePrompt :: string where
  \<open>geminiRecipePrompt = ''I need a recipe for the food item in this image. Please return a single, clean JSON object with the following keys and data types: 'title' (string), 'cuisine' (string), 'dietary_preference' (string), 'cooking_time' (string), 'servings' (string), 'ingredients' (map of ingredient names to quantities), 'instructions' (array of strings), and 'shopping_cart' (map of ingredient names to quantities). .The JSON response should be clean and not contain any markdown formatting (e.g., ```json).''\<close>

definition gemini_GenerateRecipe ::
  "jsonDecoder \<Rightarrow> generativeModel \<Rightarrow> string \<Rightarrow> string \<Rightarrow> string \<Rightarrow> Recipe result" where
  "gemini_GenerateRecipe decode model imageData dietaryPreference cuisine =
    (case gemini_IsFoodImage model imageData of
       (isFood, _, Some err) \<Rightarrow> Err (Wrapf ''failed to check if image is food: '' err '''')
     | (isFood, _, None) \<Rightarrow>
         if \<not> isFood then Err ErrNotFoodImage
         else
           (let promptText = geminiRecipePrompt
                  @ (if dietaryPreference \<noteq> ''''
                     then '' The recipe should be '' @ dietaryPreference @ ''.'' else '''')
                  @ (if cuisine \<noteq> ''''
                     then '' The recipe should be '' @ cuisine @ '' cuisine.'' else '''')
            in case model [ImageData ''png'' imageData, Text promptText] of
                 Inl err \<Rightarrow> Err err
               | Inr candidates \<Rightarrow>
                   if length candidates = 0 \<or> length (hd candidates) = 0
                   then Err (Errorf ''empty response from Gemini'')
                   else
                     (case hd (hd candidates) of
                        Text jsonString \<Rightarrow>
                          (let startIndex = IndexByte jsonString (CHR ''{'');
                               endIndex = LastIndexByte jsonString (CHR ''}'')
                           in if startIndex = -1 \<or> endIndex = -1 \<or> startIndex > endIndex
                              then Err (Errorf (''could not find JSON object in response: ''
                                                @ jsonString))
                              else
                                (let cleanJSON = slice jsonString startIndex (endIndex + 1)
                                 in case Recipe_UnmarshalJSON decode cleanJSON of
                                      Err err \<Rightarrow>
                                        Err (Wrapf ''failed to unmarshal recipe JSON: '' err
                                               (''. Raw response: '' @ cleanJSON))
                                    | Panic msg \<Rightarrow> Panic msg
                                    | Ok r \<Rightarrow>
                                        Ok (r\<lparr>Cuisine := cuisine,
                                               DietaryPreference := dietaryPreference\<rparr>)))
                      | _ \<Rightarrow> Err (Errorf ''unexpected response format from Gemini''))))"

section \<open>The local provider\<close>

text \<open>
  Package \<open>localllm\<close> (part\_001, lines 43 to 213). The HTTP round trip is a parameter:
  for the prompt and the image it answers with a transport error or with a response,
  which has a status code and a body that decodes to an error or to the contents of the
  choices' messages. Marshalling the request and building it from a constant method and
  URL cannot fail, so those two branches of \<open>GenerateContent\<close> have no counterpart here.
\<close>

record httpResponse =
  StatusCode :: nat
  Choices :: "error + string list"

type_synonym httpClient = "string \<Rightarrow> string \<Rightarrow> error + httpResponse"

definition localllm_GenerateContent :: "httpClient \<Rightarrow> string \<Rightarrow> string \<Rightarrow> error + string" where
  "localllm_GenerateContent httpDo text imageData =
    (case httpDo text imageData of
       Inl err \<Rightarrow> Inl (Wrapf ''failed to send request: '' err '''')
     | Inr resp \<Rightarrow>
         if StatusCode resp \<noteq> 200
         then Inl (Errorf (''received non-OK status code: '' @ decimal (StatusCode resp)))
         else
           (case Choices resp of
              Inl err \<Rightarrow> Inl (Wrapf ''failed to decode response body: '' err '''')
            | Inr choices \<Rightarrow>
                if length choices > 0 then Inr (hd choices)
                else Inl (Errorf ''no content found in response'')))"

definition localllm_IsFoodImage :: "httpClient \<Rightarrow> string \<Rightarrow> bool \<times> string \<times> error option" where
  "localllm_IsFoodImage httpDo imageData =
    (case localllm_GenerateContent httpDo foodPrompt imageData of
       Inl err \<Rightarrow> (False, '''', Some (Wrapf ''failed to generate content: '' err ''''))
     | Inr responseText \<Rightarrow>
         if length responseText > 2 \<and> take 2 responseText = ''No''
         then (False, responseText, None)
         else (True, responseText, None))"



section \<open>The store\<close>

text \<open>
  \<open>PostgresStore\<close> (store.go) over the two tables the upload handler uses, each a map
  from the image hash, its primary key. A row of \<open>recipes\<close> is held as the recipe it
  decodes to: the three JSONB columns are written by \<open>json.Marshal\<close> in \<open>SaveRecipe\<close>
  and read back by \<open>json.Unmarshal\<close> in \<open>GetRecipeByImageHash\<close>, and the model
  takes that round trip to return the value stored.

  Every statement runs under the request's context, so the driver can fail it (a lost
  connection, an expired deadline). That outcome is a parameter of each operation: the
  error the driver reports, if any. A statement that fails leaves its table unchanged.
\<close>

record db =
  image_metadata :: "string \<rightharpoonup> string"
  recipes :: "string \<rightharpoonup> Recipe"

text \<open>\<open>QueryRowContext(...).Scan(...)\<close> on the row with the given key.\<close>

definition scanRow :: "error option \<Rightarrow> 'v option \<Rightarrow> error + 'v" where
  "scanRow fault row =
    (case fault of
       Some err \<Rightarrow> Inl err
     | None \<Rightarrow> (case row of None \<Rightarrow> Inl ErrNoRows | Some v \<Rightarrow> Inr v))"

definition GetRecipeByImageHash ::
  "error option \<Rightarrow> db \<Rightarrow> string \<Rightarrow> Recipe option \<times> error option" where
  "GetRecipeByImageHash fault d imageHash =
    (case scanRow fault (recipes d imageHash) of
       Inl err \<Rightarrow>
         if err = ErrNoRows then (None, None)
         else (None, Some (Wrapf ''failed to get recipe by hash: '' err ''''))
     | Inr r \<Rightarrow> (Some r, None))"

definition SaveRecipe :: "error option \<Rightarrow> db \<Rightarrow> Recipe \<Rightarrow> db \<times> error option" where
  "SaveRecipe fault d recipe =
    (case fault of
       Some err \<Rightarrow> (d, Some (Wrapf ''failed to save recipe: '' err ''''))
     | None \<Rightarrow> (d\<lparr>recipes := (recipes d)(ImageHash recipe \<mapsto> recipe)\<rparr>, None))"

definition GetImageMetadata ::
  "error option \<Rightarrow> db \<Rightarrow> string \<Rightarrow> string \<times> error option" where
  "GetImageMetadata fault d imageHash =
    (case scanRow fault (image_metadata d imageHash) of
       Inl err \<Rightarrow>
         if err = ErrNoRows then ('''', None)
         else ('''', Some (Wrapf ''failed to get image metadata by hash: '' err ''''))
     | Inr description \<Rightarrow> (description, None))"

definition SaveImageMetadata ::
  "error option \<Rightarrow> db \<Rightarrow> string \<Rightarrow> string \<Rightarrow> db \<times> error option" where
  "SaveImageMetadata fault d imageHash description =
    (case fault of
       Some err \<Rightarrow> (d, Some (Wrapf ''failed to save image metadata: '' err ''''))
     | None \<Rightarrow>
         (d\<lparr>image_metadata := (image_metadata d)(imageHash \<mapsto> description)\<rparr>, None))"

section \<open>Saving the image files\<close>

text \<open>
  \<open>saveImage\<close> and \<open>saveNonFoodImage\<close> (handler.go, lines 553 to 623) decode the
  image, resize it, create a directory and a file and encode the image into it. What
  the image codecs and the file system answer is a parameter: the error of each of the
  four steps, if any.
\<close>

record imageIO =
  decodeErr :: "error option"
  mkdirErr :: "error option"
  createErr :: "error option"
  encodeErr :: "error option"

definition saveInto ::
  "string \<Rightarrow> string \<Rightarrow> imageIO \<Rightarrow> string \<Rightarrow> string \<Rightarrow> string \<Rightarrow> string \<times> error option" where
  "saveInto dir dirName io imageData imageHash originalExtension =
    (case decodeErr io of
       Some err \<Rightarrow> ('''', Some (Wrapf ''failed to decode image: '' err ''''))
     | None \<Rightarrow>
    (case mkdirErr io of
       Some err \<Rightarrow>
         ('''', Some (Wrapf (''failed to create '' @ dirName @ '' directory: '') err ''''))
     | None \<Rightarrow>
    (let imagePath = dir @ ''/'' @ imageHash @ originalExtension
     in case createErr io of
          Some err \<Rightarrow> ('''', Some (Wrapf ''failed to create image file: '' err ''''))
        | None \<Rightarrow>
            if originalExtension = ''.jpeg'' \<or> originalExtension = ''.jpg''
               \<or> originalExtension = ''.png''
            then
              (case encodeErr io of
                 Some err \<Rightarrow> ('''', Some (Wrapf ''failed to encode image: '' err ''''))
               | None \<Rightarrow> (imagePath, None))
            else
              ('''', Some (Errorf (''unsupported image format: '' @ originalExtension))))))"

definition saveImage :: "imageIO \<Rightarrow> string \<Rightarrow> string \<Rightarrow> string \<Rightarrow> string \<times> error option" where
  "saveImage = saveInto ''images'' ''images''"

definition saveNonFoodImage ::
  "imageIO \<Rightarrow> string \<Rightarrow> string \<Rightarrow> string \<Rightarrow> string \<times> error option" where
  "saveNonFoodImage = saveInto ''images/NoneFoodImages'' ''non_food_images''"

section \<open>The upload handler\<close>

text \<open>
  \<open>Handler.Upload\<close> (handler.go, lines 63 to 214) answers the request through the gin
  context; the model returns the response written, the tables after the request and the
  calls made on the model client and the store, in order. The handler does not recover
  from a panic of the client: \<open>Unwound\<close> stands for a run the panic ended (it unwinds
  to the router's recovery middleware).
\<close>

datatype response =
    String nat string
  | JSONMessage nat string
  | JSONRecipe nat Recipe
  | Unwound string

datatype call =
    CallGetImageMetadata string
  | CallIsFoodImage string
  | CallSaveImageMetadata string string
  | CallSaveNonFoodImage string string
  | CallGetRecipeByImageHash string
  | CallGenerateRecipe string string string
  | CallSaveImage string string
  | CallSaveRecipe Recipe

text \<open>
  The uploaded file as \<open>c.FormFile\<close> returns it: its name, and what \<open>Open\<close> followed
  by \<open>io.ReadAll\<close> gives (an error of \<open>Open\<close>, or an error of the read, or the bytes).
\<close>

record fileHeader =
  Filename :: string
  Open :: "error + (error + string)"

record request =
  FormFile :: "error + fileHeader"
  queryDietaryPreference :: string
  queryCuisine :: string

text \<open>
  What one run of the handler meets outside of its own code: the hash function
  (\<open>GenerateImageHash\<close>, the hexadecimal SHA-256 digest), the two operations of the
  \<open>GeminiClient\<close> interface, the outcome of each of the four statements on the
  database, and the outcome of the steps of the two file writes.
\<close>

record env =
  sha256hex :: "string \<Rightarrow> string"
  IsFoodImage :: "string \<Rightarrow> bool \<times> string \<times> error option"
  GenerateRecipe :: "string \<Rightarrow> string \<Rightarrow> string \<Rightarrow> Recipe result"
  faultGetImageMetadata :: "error option"
  faultSaveImageMetadata :: "error option"
  faultGetRecipe :: "error option"
  faultSaveRecipe :: "error option"
  imageFiles :: imageIO
  nonFoodFiles :: imageIO

definition GenerateImageHash :: "(string \<Rightarrow> string) \<Rightarrow> string \<Rightarrow> string" where
  "GenerateImageHash sha imageData = sha imageData"

text \<open>\<open>filepath.Ext\<close>: the suffix from the last dot of the last path element on.\<close>

definition Ext :: "string \<Rightarrow> string" where
  "Ext path =
    (let element = takeWhile (\<lambda>c. c \<noteq> CHR ''/'') (rev path)
     in if List.member element (CHR ''.'')
        then CHR ''.'' # rev (takeWhile (\<lambda>c. c \<noteq> CHR ''.'') element)
        else '''')"

definition allowedExtensions :: "string list" where
  "allowedExtensions = [''.jpeg'', ''.jpg'', ''.png'']"

definition notFoodMessage :: string where
  \<open>notFoodMessage = ''Pixel Chef says: It doesn't look like food. We're here to help you whip up amazing dishes from your ingredients. Just snap a pic of your culinary creations (or ingredients!) and let's get cooking!''\<close>

definition notFoodFallback :: string where
  \<open>notFoodFallback = ''Oops! That doesn't look like food. We're here to help you whip up amazing dishes from your ingredients. Just snap a pic of your culinary creations (or ingredients!) and let's get cooking!''\<close>

text \<open>
  Lines 112 to 141, the classification: the stored description, or on an empty one the
  client's answer, written through. The result is an early response or the pair
  \<open>(isFood, geminiDescription)\<close>.
\<close>

definition classification ::
  "env \<Rightarrow> db \<Rightarrow> string \<Rightarrow> string \<Rightarrow> (response + bool \<times> string) \<times> db \<times> call list" where
  "classification e d imageHash imageData =
    (case GetImageMetadata (faultGetImageMetadata e) d imageHash of
       (imageDescription, Some err) \<Rightarrow>
         (Inl (String 500 (''database error: '' @ Error err)), d,
          [CallGetImageMetadata imageHash])
     | (imageDescription, None) \<Rightarrow>
         if imageDescription = ''''
         then
           (case IsFoodImage e imageData of
              (isFood, geminiDescription, Some err) \<Rightarrow>
                (Inl (String 500 (''gemini err: '' @ Error err)), d,
                 [CallGetImageMetadata imageHash, CallIsFoodImage imageData])
            | (isFood, geminiDescription, None) \<Rightarrow>
                (case SaveImageMetadata (faultSaveImageMetadata e) d imageHash
                        geminiDescription of
                   (d', saveErr) \<Rightarrow>
                     (Inr (isFood, geminiDescription), d',
                      [CallGetImageMetadata imageHash, CallIsFoodImage imageData,
                       CallSaveImageMetadata imageHash geminiDescription])))
         else
           (Inr (\<not> HasPrefix (ToLower (TrimSpace imageDescription)) ''no'',
                 imageDescription), d,
            [CallGetImageMetadata imageHash]))"

text \<open>Lines 154 to 213, run for an image classified as food.\<close>

definition recipeResolution ::
  "env \<Rightarrow> db \<Rightarrow> string \<Rightarrow> string \<Rightarrow> string \<Rightarrow> string \<Rightarrow> string \<Rightarrow> response \<times> db \<times> call list" where
  "recipeResolution e d imageHash extension dietaryPreference cuisine imageData =
    (case GetRecipeByImageHash (faultGetRecipe e) d imageHash of
       (_, Some err) \<Rightarrow>
         if errors_Is err DeadlineExceeded
         then (String 408 ''Database query timed out after 2 seconds'', d,
               [CallGetRecipeByImageHash imageHash])
         else (String 500 (''database error: '' @ Error err), d,
               [CallGetRecipeByImageHash imageHash])
     | (Some recipe, None) \<Rightarrow>
         (JSONRecipe 200 recipe, d, [CallGetRecipeByImageHash imageHash])
     | (None, None) \<Rightarrow>
         (let calls = [CallGetRecipeByImageHash imageHash,
                       CallGenerateRecipe imageData dietaryPreference cuisine]
          in case GenerateRecipe e imageData dietaryPreference cuisine of
               Panic msg \<Rightarrow> (Unwound msg, d, calls)
             | Err err \<Rightarrow>
                 if errors_Is err DeadlineExceeded
                 then (String 408 ''Gemini API call timed out after 45 seconds'', d, calls)
                 else if errors_Is err ErrNotFoodImage
                 then (String 400 notFoodFallback, d, calls)
                 else (String 500 (''gemini err: '' @ Error err), d, calls)
             | Ok recipe \<Rightarrow>
                 (case saveImage (imageFiles e) imageData imageHash extension of
                    (_, Some err) \<Rightarrow>
                      (String 500 (''failed to save image: '' @ Error err), d,
                       calls @ [CallSaveImage imageHash extension])
                  | (imagePath, None) \<Rightarrow>
                      (let stamped = recipe\<lparr>ImagePath := imagePath, ImageHash := imageHash\<rparr>;
                           calls' = calls @ [CallSaveImage imageHash extension,
                                             CallSaveRecipe stamped]
                       in case SaveRecipe (faultSaveRecipe e) d stamped of
                            (d', Some err) \<Rightarrow>
                              if errors_Is err DeadlineExceeded
                              then (String 408 ''Database save timed out after 2 seconds'',
                                    d', calls')
                              else (String 500 (''failed to save recipe: '' @ Error err),
                                    d', calls')
                          | (d', None) \<Rightarrow> (JSONRecipe 200 stamped, d', calls')))))"

text \<open>Lines 105 to 214: the pipeline on the bytes read.\<close>

definition pipeline ::
  "env \<Rightarrow> db \<Rightarrow> string \<Rightarrow> string \<Rightarrow> string \<Rightarrow> string \<Rightarrow> response \<times> db \<times> call list" where
  "pipeline e d extension dietaryPreference cuisine imageData =
    (let imageHash = GenerateImageHash (sha256hex e) imageData
     in case classification e d imageHash imageData of
          (Inl resp, d', calls) \<Rightarrow> (resp, d', calls)
        | (Inr (isFood, geminiDescription), d', calls) \<Rightarrow>
            if \<not> isFood
            then
              (case saveNonFoodImage (nonFoodFiles e) imageData imageHash extension of
                 (savePath, saveErr) \<Rightarrow>
                   (JSONMessage 200 notFoodMessage, d',
                    calls @ [CallSaveNonFoodImage imageHash extension]))
            else
              (case recipeResolution e d' imageHash extension dietaryPreference cuisine
                      imageData of
                 (resp, d'', calls') \<Rightarrow> (resp, d'', calls @ calls')))"

text \<open>
  Lines 64 to 103: the file of the form, its extension checked against the allowed ones,
  and its bytes. The result is an early response or the extension and the bytes.
\<close>

definition readUpload :: "request \<Rightarrow> response + string \<times> string" where
  "readUpload req =
    (case FormFile req of
       Inl err \<Rightarrow> Inl (String 400 (''get form err: '' @ Error err))
     | Inr file \<Rightarrow>
         (let extension = ToLower (Ext (Filename file))
          in if \<not> List.member allowedExtensions extension
             then Inl (String 400
                         ''Invalid file type. Only JPEG, JPG, and PNG images are allowed.'')
             else
               (case Open file of
                  Inl err \<Rightarrow> Inl (String 500 (''open file err: '' @ Error err))
                | Inr (Inl err) \<Rightarrow> Inl (String 500 (''read image err: '' @ Error err))
                | Inr (Inr imageData) \<Rightarrow> Inr (extension, imageData))))"

text \<open>\<open>Handler.Upload\<close>: the request is read, then the pipeline runs on its bytes.\<close>

definition Upload :: "env \<Rightarrow> db \<Rightarrow> request \<Rightarrow> response \<times> db \<times> call list" where
  "Upload e d req =
    (case readUpload req of
       Inl resp \<Rightarrow> (resp, d, [])
     | Inr (extension, imageData) \<Rightarrow>
         pipeline e d extension (queryDietaryPreference req) (queryCuisine req) imageData)"

section \<open>Notions the statements use\<close>

text \<open>
  The words of the specification, a response that contains a pair of braces: some
  \<open>{\<close> of the text has a \<open>}\<close> after it.
\<close>

definition hasBracePair :: "string \<Rightarrow> bool" where
  "hasBracePair reply = (CHR ''}'' \<in> set (dropWhile (\<lambda>c. c \<noteq> CHR ''{'') reply))"





section \<open>Sample runs\<close>

text \<open>
  Concrete inputs for the instances below. The client is the mock of the handler's
  tests (main\_test.go, lines 22 to 57): every image is food, and every recipe asked for
  is the same mock recipe. The hash is a stand-in that tags the bytes.
\<close>

definition mockRecipe :: Recipe where
  "mockRecipe = \<lparr>ImageHash = '''', Title = ''Mock Recipe Title'',
     Ingredients = [(''Flour'', ''2 cups'')], Instructions = [''Mix ingredients''],
     ShoppingCart = [(''Flour'', ''2 cups'')], Cuisine = '''', DietaryPreference = '''',
     CookingTime = '''', Servings = '''', ImagePath = ''''\<rparr>"

definition noFaults :: imageIO where
  "noFaults = \<lparr>decodeErr = None, mkdirErr = None, createErr = None, encodeErr = None\<rparr>"

definition brokenDisk :: imageIO where
  "brokenDisk = \<lparr>decodeErr = None,
     mkdirErr = Some (Errorf ''mkdir images/NoneFoodImages: permission denied''),
     createErr = None, encodeErr = None\<rparr>"

definition mockEnv :: env where
  "mockEnv = \<lparr>sha256hex = (\<lambda>imageData. ''sha256:'' @ imageData),
     IsFoodImage = (\<lambda>imageData. (True, ''mock gemini description'', None)),
     GenerateRecipe = (\<lambda>imageData dietaryPreference cuisine. Ok mockRecipe),
     faultGetImageMetadata = None, faultSaveImageMetadata = None,
     faultGetRecipe = None, faultSaveRecipe = None,
     imageFiles = noFaults, nonFoodFiles = noFaults\<rparr>"

definition emptyDb :: db where
  "emptyDb = \<lparr>image_metadata = Map.empty, recipes = Map.empty\<rparr>"

definition cakeDb :: db where
  "cakeDb = \<lparr>image_metadata = [''sha256:img'' \<mapsto> ''No cake detected here''],
     recipes = Map.empty\<rparr>"


definition pngUpload :: "string \<Rightarrow> string \<Rightarrow> string \<Rightarrow> request" where
  "pngUpload imageData dietaryPreference cuisine =
    \<lparr>FormFile = Inr \<lparr>Filename = ''dish.PNG'', Open = Inr (Inr imageData)\<rparr>,
     queryDietaryPreference = dietaryPreference, queryCuisine = cuisine\<rparr>"

definition localAnswer :: "string \<Rightarrow> httpClient" where
  "localAnswer content =
    (\<lambda>prompt imageData. Inr \<lparr>StatusCode = 200, Choices = Inr [content]\<rparr>)"

definition storedRecipe :: Recipe where
  "storedRecipe = mockRecipe\<lparr>ImagePath := ''images/sha256:img.png'', ImageHash := ''sha256:img''\<rparr>"

definition veganDb :: db where
  "veganDb = \<lparr>image_metadata = [''sha256:img'' \<mapsto> ''mock gemini description''],
     recipes = [''sha256:img'' \<mapsto> storedRecipe]\<rparr>"

definition modelAnswering :: "string \<Rightarrow> generativeModel" where
  "modelAnswering content = (\<lambda>prompt. Inr [[Text content]])"

definition recipeOnlyDb :: db where
  "recipeOnlyDb = \<lparr>image_metadata = Map.empty,
     recipes = [''sha256:img'' \<mapsto> storedRecipe]\<rparr>"








section \<open>Properties\<close>

subsection \<open>Evaluations and steps shared by the proofs\<close>

lemma readUpload_pngUpload:
  "readUpload (pngUpload imageData dietaryPreference cuisine) = Inr (''.png'', imageData)"
  unfolding pngUpload_def by code_simp

lemma isFoodRule_empty: "isFoodRule ''''"
  by code_simp

lemma isFoodRule_cake: "isFoodRule ''No cake detected here'' = False"
  by code_simp

lemma isFoodRule_pasta: "isFoodRule ''A delicious pasta dish'' = True"
  by code_simp

lemma Upload_pipeline:
  "readUpload req = Inr (extension, imageData) \<Longrightarrow>
   Upload e d req
     = pipeline e d extension (queryDietaryPreference req) (queryCuisine req) imageData"
  by (simp add: Upload_def)

lemma gemini_IsFoodImage_rule:
  "gemini_IsFoodImage model imageData = (isFood, description, None)
   \<Longrightarrow> isFood = isFoodRule description"
  by (auto simp: gemini_IsFoodImage_def isFoodRule_def Let_def
           split: sum.splits part.splits if_splits)

lemma cached_classification:
  assumes "image_metadata d imageHash = Some description"
    and "description \<noteq> ''''"
    and "faultGetImageMetadata e = None"
  shows "classification e d imageHash imageData
           = (Inr (isFoodRule description, description), d, [CallGetImageMetadata imageHash])"
  using assms
  by (simp add: classification_def GetImageMetadata_def scanRow_def isFoodRule_def)

lemma recipeResolution_calls:
  "CallIsFoodImage x \<notin> set (snd (snd (recipeResolution e d h ext dp cu data)))"
  by (simp add: recipeResolution_def Let_def split: prod.splits option.splits result.splits)

lemma pipeline_calls:
  "\<exists>rest. snd (snd (pipeline e d ext dp cu data))
      = snd (snd (classification e d (GenerateImageHash (sha256hex e) data) data)) @ rest
    \<and> CallIsFoodImage x \<notin> set rest"
proof -
  let ?h = "GenerateImageHash (sha256hex e) data"
  obtain r d' calls where c: "classification e d ?h data = (r, d', calls)"
    by (cases "classification e d ?h data") auto
  show ?thesis
  proof (cases r)
    case (Inl resp)
    with c show ?thesis by (simp add: pipeline_def Let_def)
  next
    case (Inr p)
    obtain isFood desc where p: "p = (isFood, desc)" by (cases p) auto
    show ?thesis
    proof (cases isFood)
      case False
      with c Inr p show ?thesis
        by (simp add: pipeline_def Let_def split: prod.splits)
    next
      case True
      obtain resp d'' calls'
        where rr: "recipeResolution e d' ?h ext dp cu data = (resp, d'', calls')"
        by (cases "recipeResolution e d' ?h ext dp cu data") auto
      have "CallIsFoodImage x \<notin> set calls'"
        using recipeResolution_calls[of x e d' ?h ext dp cu data] rr by simp
      with c Inr p True rr show ?thesis
        by (simp add: pipeline_def Let_def)
    qed
  qed
qed

subsection \<open>The claims\<close>

text \<open>
  C1. The claim: for every description a provider answers with, the flag its classify
  operation returns is the rule (trim, lower case, prefix \<open>no\<close>) applied to that
  description, for the cloud provider and for the local one. The cloud provider does so
  (\<open>gemini_IsFoodImage_rule\<close>). The local provider tests the first two bytes of the
  untrimmed text for \<open>No\<close>, in that case: on the answer its own prompt asks for,
  \<open>NO\<close> and a description, it returns \<open>true\<close> where the rule gives \<open>false\<close>.
\<close>

theorem localllm_IsFoodImage_diverges:
  "localllm_IsFoodImage (localAnswer ''NO dog sitting on grass'') imageData
     = (True, ''NO dog sitting on grass'', None)
   \<and> isFoodRule ''NO dog sitting on grass'' = False"
  by code_simp

text \<open>
  C2. For a fingerprint with a stored, non-empty description, the classification reads
  the store only: its flag is the rule applied to the stored description, and no call
  of \<open>IsFoodImage\<close> is among the calls of the whole run.
\<close>

theorem cached_classification_skips_model:
  assumes "readUpload req = Inr (extension, imageData)"
    and "image_metadata d (GenerateImageHash (sha256hex e) imageData) = Some description"
    and "description \<noteq> ''''"
    and "faultGetImageMetadata e = None"
  shows "classification e d (GenerateImageHash (sha256hex e) imageData) imageData
           = (Inr (isFoodRule description, description), d,
              [CallGetImageMetadata (GenerateImageHash (sha256hex e) imageData)])
       \<and> CallIsFoodImage x \<notin> set (snd (snd (Upload e d req)))"
proof -
  let ?h = "GenerateImageHash (sha256hex e) imageData"
  have c: "classification e d ?h imageData
             = (Inr (isFoodRule description, description), d, [CallGetImageMetadata ?h])"
    using assms(2-4) by (rule cached_classification)
  obtain rest where r: "snd (snd (pipeline e d extension (queryDietaryPreference req)
        (queryCuisine req) imageData))
      = snd (snd (classification e d ?h imageData)) @ rest"
    and n: "CallIsFoodImage x \<notin> set rest"
    using pipeline_calls by blast
  have "CallIsFoodImage x \<notin> set (snd (snd (Upload e d req)))"
    using Upload_pipeline[OF assms(1)] r n c by simp
  with c show ?thesis by simp
qed

theorem cached_classification_skips_model_witness:
  "classification mockEnv cakeDb ''sha256:img'' ''img''
     = (Inr (False, ''No cake detected here''), cakeDb, [CallGetImageMetadata ''sha256:img''])
   \<and> CallIsFoodImage ''img''
        \<notin> set (snd (snd (Upload mockEnv cakeDb (pngUpload ''img'' ''vegan'' ''thai''))))"
  using cached_classification_skips_model[of "pngUpload ''img'' ''vegan'' ''thai''"
      "''.png''" "''img''" cakeDb mockEnv "''No cake detected here''" "''img''"]
    readUpload_pngUpload[of "''img''" "''vegan''" "''thai''"] isFoodRule_cake
  by (simp add: cakeDb_def mockEnv_def GenerateImageHash_def)



text \<open>
  C7. For a fingerprint whose stored description derives \<open>isFood = false\<close>, the run
  answers 200 with the rejection message and makes two calls, the metadata read and the
  write of the image to the side directory: \<open>GenerateRecipe\<close> is not called. The
  answer is the same whatever the steps of that write return (\<open>files\<close> is arbitrary).
\<close>

theorem cached_non_food_rejected:
  assumes "readUpload req = Inr (extension, imageData)"
    and "image_metadata d (GenerateImageHash (sha256hex e) imageData) = Some description"
    and "\<not> isFoodRule description"
    and "faultGetImageMetadata e = None"
  shows "Upload (e\<lparr>nonFoodFiles := files\<rparr>) d req
           = (JSONMessage 200 notFoodMessage, d,
              [CallGetImageMetadata (GenerateImageHash (sha256hex e) imageData),
               CallSaveNonFoodImage (GenerateImageHash (sha256hex e) imageData) extension])
       \<and> CallGenerateRecipe imageData dietaryPreference cuisine
             \<notin> set (snd (snd (Upload (e\<lparr>nonFoodFiles := files\<rparr>) d req)))"
proof -
  let ?e = "e\<lparr>nonFoodFiles := files\<rparr>"
  let ?h = "GenerateImageHash (sha256hex e) imageData"
  have ne: "description \<noteq> ''''" using assms(3) isFoodRule_empty by auto
  have c: "classification ?e d ?h imageData
             = (Inr (isFoodRule description, description), d, [CallGetImageMetadata ?h])"
    using assms(2,4) ne by (intro cached_classification) simp_all
  have "Upload ?e d req = (JSONMessage 200 notFoodMessage, d,
              [CallGetImageMetadata ?h, CallSaveNonFoodImage ?h extension])"
    using Upload_pipeline[OF assms(1), of ?e d] c assms(3)
    by (simp add: pipeline_def Let_def split: prod.splits)
  then show ?thesis by simp
qed

theorem cached_non_food_rejected_witness:
  "Upload (mockEnv\<lparr>nonFoodFiles := brokenDisk\<rparr>) cakeDb (pngUpload ''img'' ''vegan'' ''thai'')
     = (JSONMessage 200 notFoodMessage, cakeDb,
        [CallGetImageMetadata ''sha256:img'', CallSaveNonFoodImage ''sha256:img'' ''.png''])
   \<and> CallGenerateRecipe ''img'' ''vegan'' ''thai''
         \<notin> set (snd (snd (Upload (mockEnv\<lparr>nonFoodFiles := brokenDisk\<rparr>) cakeDb
                              (pngUpload ''img'' ''vegan'' ''thai''))))
   \<and> snd (saveNonFoodImage brokenDisk ''img'' ''sha256:img'' ''.png'') \<noteq> None"
  using cached_non_food_rejected[of "pngUpload ''img'' ''vegan'' ''thai''" "''.png''" "''img''"
      cakeDb mockEnv "''No cake detected here''" brokenDisk "''vegan''" "''thai''"]
    readUpload_pngUpload[of "''img''" "''vegan''" "''thai''"] isFoodRule_cake
  by (simp add: cakeDb_def mockEnv_def GenerateImageHash_def saveNonFoodImage_def
        saveInto_def brokenDisk_def)

lemma classification_frame:
  "CallGenerateRecipe x y z \<notin> set (snd (snd (classification e d h data)))
   \<and> CallSaveRecipe r \<notin> set (snd (snd (classification e d h data)))
   \<and> recipes (fst (snd (classification e d h data))) = recipes d"
  by (simp add: classification_def GetImageMetadata_def SaveImageMetadata_def scanRow_def
           split: prod.splits option.splits sum.splits)

lemma isFoodRule_mock: "isFoodRule ''mock gemini description'' = True"
  by code_simp

lemma readUpload_query:
  "readUpload (req\<lparr>queryDietaryPreference := dp, queryCuisine := cu\<rparr>) = readUpload req"
  by (simp add: readUpload_def)

text \<open>
  C3. The claim: for bytes whose fingerprint has a stored recipe, a second run with any
  other \<open>dietaryPreference\<close> and \<open>cuisine\<close> returns the stored recipe, calls
  \<open>GenerateRecipe\<close> never and leaves the stored recipe as it is. The recipe cache is
  read only after the classification (line 144 comes before line 157), so the stored
  recipe alone does not decide the response: where the fingerprint has a recipe and no
  description (the write of the description failed and was swallowed) and the client
  now answers \<open>NO\<close>, the run is rejected; and a recipe read that the database fails
  is answered with an error.
\<close>

theorem cached_recipe_rejected_when_not_food:
  "Upload (mockEnv\<lparr>faultSaveImageMetadata := Some (Errorf ''connection refused'')\<rparr>) emptyDb
       (pngUpload ''img'' ''vegan'' '''')
     = (JSONRecipe 200 storedRecipe, recipeOnlyDb,
        [CallGetImageMetadata ''sha256:img'', CallIsFoodImage ''img'',
         CallSaveImageMetadata ''sha256:img'' ''mock gemini description'',
         CallGetRecipeByImageHash ''sha256:img'', CallGenerateRecipe ''img'' ''vegan'' '''',
         CallSaveImage ''sha256:img'' ''.png'', CallSaveRecipe storedRecipe])
   \<and> recipes recipeOnlyDb ''sha256:img'' = Some storedRecipe
   \<and> Upload (mockEnv\<lparr>IsFoodImage := (\<lambda>imageData. (False, ''NO dog sitting on grass'', None))\<rparr>)
       recipeOnlyDb (pngUpload ''img'' ''keto'' '''')
     = (JSONMessage 200 notFoodMessage,
        \<lparr>image_metadata = [''sha256:img'' \<mapsto> ''NO dog sitting on grass''],
         recipes = [''sha256:img'' \<mapsto> storedRecipe]\<rparr>,
        [CallGetImageMetadata ''sha256:img'', CallIsFoodImage ''img'',
         CallSaveImageMetadata ''sha256:img'' ''NO dog sitting on grass'',
         CallSaveNonFoodImage ''sha256:img'' ''.png''])
   \<and> Upload (mockEnv\<lparr>faultGetRecipe := Some DeadlineExceeded\<rparr>) veganDb
       (pngUpload ''img'' ''keto'' '''')
     = (String 408 ''Database query timed out after 2 seconds'', veganDb,
        [CallGetImageMetadata ''sha256:img'', CallGetRecipeByImageHash ''sha256:img''])"
proof -
  have u: "\<And>e d dp. Upload e d (pngUpload ''img'' dp '''')
             = pipeline e d ''.png'' dp '''' ''img''"
    using Upload_pipeline[OF readUpload_pngUpload] by (simp add: pngUpload_def)
  have lower: "ToLower (TrimSpace ''mock gemini description'') = ''mock gemini description''"
    by code_simp
  show ?thesis
    unfolding u
    by (simp add: pipeline_def classification_def recipeResolution_def
          GetImageMetadata_def SaveImageMetadata_def GetRecipeByImageHash_def SaveRecipe_def
          scanRow_def saveImage_def saveNonFoodImage_def saveInto_def GenerateImageHash_def
          mockEnv_def emptyDb_def veganDb_def recipeOnlyDb_def storedRecipe_def noFaults_def
          HasPrefix_def lower Let_def)
qed

text \<open>
  C3, as amended. For bytes whose fingerprint has a stored recipe, a run that
  classifies them as food and gets its recipe read answered responds with the stored
  recipe whatever \<open>dietaryPreference\<close> and \<open>cuisine\<close> the request carries;
  \<open>GenerateRecipe\<close> is not called and the table of recipes is as before: the recipe
  cache is keyed by the fingerprint alone.
\<close>

theorem cached_recipe_ignores_parameters:
  assumes "readUpload req = Inr (extension, imageData)"
    and "recipes d (GenerateImageHash (sha256hex e) imageData) = Some recipe"
    and "faultGetRecipe e = None"
    and "classification e d (GenerateImageHash (sha256hex e) imageData) imageData
           = (Inr (True, description), d1, calls)"
  shows "Upload e d (req\<lparr>queryDietaryPreference := dietaryPreference, queryCuisine := cuisine\<rparr>)
           = (JSONRecipe 200 recipe, d1,
              calls @ [CallGetRecipeByImageHash (GenerateImageHash (sha256hex e) imageData)])
       \<and> recipes d1 = recipes d
       \<and> CallGenerateRecipe x y z
            \<notin> set (calls @ [CallGetRecipeByImageHash (GenerateImageHash (sha256hex e) imageData)])"
proof -
  let ?h = "GenerateImageHash (sha256hex e) imageData"
  let ?req = "req\<lparr>queryDietaryPreference := dietaryPreference, queryCuisine := cuisine\<rparr>"
  have f: "recipes d1 = recipes d" "CallGenerateRecipe x y z \<notin> set calls"
    using classification_frame[where x = x and y = y and z = z and e = e and d = d
        and h = ?h and data = imageData] assms(4)
    by simp_all
  have rd: "readUpload ?req = Inr (extension, imageData)"
    using assms(1) by (simp add: readUpload_query)
  have rr: "recipeResolution e d1 ?h extension dietaryPreference cuisine imageData
              = (JSONRecipe 200 recipe, d1, [CallGetRecipeByImageHash ?h])"
    using assms(2,3) f(1)
    by (simp add: recipeResolution_def GetRecipeByImageHash_def scanRow_def)
  have "Upload e d ?req = (JSONRecipe 200 recipe, d1, calls @ [CallGetRecipeByImageHash ?h])"
    using Upload_pipeline[OF rd, of e d] assms(4) rr
    by (simp add: pipeline_def Let_def)
  with f show ?thesis by simp
qed

theorem cached_recipe_ignores_parameters_witness:
  "Upload mockEnv emptyDb (pngUpload ''img'' ''vegan'' '''')
     = (JSONRecipe 200 storedRecipe, veganDb,
        [CallGetImageMetadata ''sha256:img'', CallIsFoodImage ''img'',
         CallSaveImageMetadata ''sha256:img'' ''mock gemini description'',
         CallGetRecipeByImageHash ''sha256:img'', CallGenerateRecipe ''img'' ''vegan'' '''',
         CallSaveImage ''sha256:img'' ''.png'', CallSaveRecipe storedRecipe])
   \<and> Upload mockEnv veganDb (pngUpload ''img'' ''keto'' ''thai'')
     = (JSONRecipe 200 storedRecipe, veganDb,
        [CallGetImageMetadata ''sha256:img'', CallGetRecipeByImageHash ''sha256:img''])"
proof -
  have c: "classification mockEnv veganDb ''sha256:img'' ''img''
             = (Inr (True, ''mock gemini description''), veganDb,
                [CallGetImageMetadata ''sha256:img''])"
    using cached_classification[of veganDb "''sha256:img''" "''mock gemini description''"
        mockEnv "''img''"] isFoodRule_mock
    by (simp add: veganDb_def mockEnv_def)
  have first: "Upload mockEnv emptyDb (pngUpload ''img'' ''vegan'' '''')
     = (JSONRecipe 200 storedRecipe, veganDb,
        [CallGetImageMetadata ''sha256:img'', CallIsFoodImage ''img'',
         CallSaveImageMetadata ''sha256:img'' ''mock gemini description'',
         CallGetRecipeByImageHash ''sha256:img'', CallGenerateRecipe ''img'' ''vegan'' '''',
         CallSaveImage ''sha256:img'' ''.png'', CallSaveRecipe storedRecipe])"
    using Upload_pipeline[OF readUpload_pngUpload, of mockEnv emptyDb "''img''" "''vegan''" "''''"]
    by (simp add: pngUpload_def pipeline_def classification_def recipeResolution_def
          GetImageMetadata_def SaveImageMetadata_def GetRecipeByImageHash_def SaveRecipe_def
          scanRow_def saveImage_def saveInto_def GenerateImageHash_def
          mockEnv_def emptyDb_def veganDb_def storedRecipe_def noFaults_def Let_def)
  have "pngUpload ''img'' ''vegan'' ''''\<lparr>queryDietaryPreference := ''keto'', queryCuisine := ''thai''\<rparr>
          = pngUpload ''img'' ''keto'' ''thai''"
    by (simp add: pngUpload_def)
  then have second: "Upload mockEnv veganDb (pngUpload ''img'' ''keto'' ''thai'')
     = (JSONRecipe 200 storedRecipe, veganDb,
        [CallGetImageMetadata ''sha256:img'', CallGetRecipeByImageHash ''sha256:img''])"
    using cached_recipe_ignores_parameters[where req = "pngUpload ''img'' ''vegan'' ''''"
        and extension = "''.png''" and imageData = "''img''" and d = veganDb and e = mockEnv
        and recipe = storedRecipe and description = "''mock gemini description''"
        and ?d1.0 = veganDb and calls = "[CallGetImageMetadata ''sha256:img'']"
        and dietaryPreference = "''keto''" and cuisine = "''thai''"]
      readUpload_pngUpload[of "''img''" "''vegan''" "''''"] c
    by (simp add: veganDb_def mockEnv_def GenerateImageHash_def)
  from first second show ?thesis by simp
qed

lemma classification_fault:
  "fst (classification (e\<lparr>faultSaveImageMetadata := f\<rparr>) d h data)
     = fst (classification e d h data)"
  by (simp add: classification_def GetImageMetadata_def SaveImageMetadata_def scanRow_def
           split: prod.splits option.splits sum.splits)

lemma recipeResolution_fault:
  "recipes d2 = recipes d \<Longrightarrow>
   fst (recipeResolution (e\<lparr>faultSaveImageMetadata := f\<rparr>) d2 h ext dp cu data)
     = fst (recipeResolution e d h ext dp cu data)"
  by (simp add: recipeResolution_def GetRecipeByImageHash_def SaveRecipe_def scanRow_def Let_def
           split: prod.splits option.splits sum.splits result.splits)

lemma pipeline_fault:
  "fst (pipeline (e\<lparr>faultSaveImageMetadata := f\<rparr>) d ext dp cu data)
     = fst (pipeline e d ext dp cu data)"
proof -
  let ?e = "e\<lparr>faultSaveImageMetadata := f\<rparr>"
  let ?h = "GenerateImageHash (sha256hex e) data"
  obtain r d1 calls1 where c1: "classification ?e d ?h data = (r, d1, calls1)"
    by (cases "classification ?e d ?h data") auto
  obtain r' d2 calls2 where c2: "classification e d ?h data = (r', d2, calls2)"
    by (cases "classification e d ?h data") auto
  have r: "r' = r" using classification_fault[where e = e and f = f and d = d and h = ?h and data = data] c1 c2
    by simp
  have d: "recipes d1 = recipes d2"
    using classification_frame[where e = ?e and d = d and h = ?h and data = data]
      classification_frame[where e = e and d = d and h = ?h and data = data] c1 c2
    by simp
  show ?thesis
  proof (cases r)
    case (Inl resp)
    with c1 c2 r show ?thesis by (simp add: pipeline_def Let_def)
  next
    case (Inr p)
    obtain isFood desc where p: "p = (isFood, desc)" by (cases p) auto
    show ?thesis
    proof (cases isFood)
      case False
      with c1 c2 r Inr p show ?thesis by (simp add: pipeline_def Let_def split: prod.splits)
    next
      case True
      have "fst (recipeResolution ?e d1 ?h ext dp cu data)
              = fst (recipeResolution e d2 ?h ext dp cu data)"
        using d by (rule recipeResolution_fault)
      with c1 c2 r Inr p True show ?thesis
        by (auto simp: pipeline_def Let_def split: prod.splits)
    qed
  qed
qed

lemma recipeResolution_save_failed:
  assumes "faultSaveRecipe e = Some err"
    and "CallSaveRecipe r \<in> set (snd (snd (recipeResolution e d h ext dp cu data)))"
  shows "recipeResolution e d h ext dp cu data
     = (if errors_Is err DeadlineExceeded
        then String 408 ''Database save timed out after 2 seconds''
        else String 500 (''failed to save recipe: failed to save recipe: '' @ Error err),
        d, snd (snd (recipeResolution e d h ext dp cu data)))"
  using assms
  by (auto simp: recipeResolution_def GetRecipeByImageHash_def SaveRecipe_def scanRow_def Let_def
           split: prod.splits option.splits sum.splits result.splits if_splits)

lemma pipeline_save_failed:
  assumes "faultSaveRecipe e = Some err"
    and "CallSaveRecipe r \<in> set (snd (snd (pipeline e d ext dp cu data)))"
  shows "fst (pipeline e d ext dp cu data)
     = (if errors_Is err DeadlineExceeded
        then String 408 ''Database save timed out after 2 seconds''
        else String 500 (''failed to save recipe: failed to save recipe: '' @ Error err))
   \<and> recipes (fst (snd (pipeline e d ext dp cu data))) = recipes d"
proof -
  let ?h = "GenerateImageHash (sha256hex e) data"
  obtain c d1 calls1 where c1: "classification e d ?h data = (c, d1, calls1)"
    by (cases "classification e d ?h data") auto
  have fr: "CallSaveRecipe r \<notin> set calls1" "recipes d1 = recipes d"
    using classification_frame[where e = e and d = d and h = ?h and data = data and r = r] c1
    by simp_all
  show ?thesis
  proof (cases c)
    case (Inl resp)
    with c1 fr assms(2) show ?thesis by (simp add: pipeline_def Let_def)
  next
    case (Inr p)
    obtain isFood desc where p: "p = (isFood, desc)" by (cases p) auto
    show ?thesis
    proof (cases isFood)
      case False
      with c1 fr assms(2) Inr p show ?thesis
        by (simp add: pipeline_def Let_def split: prod.splits)
    next
      case True
      obtain resp d2 calls2
        where rr: "recipeResolution e d1 ?h ext dp cu data = (resp, d2, calls2)"
        by (cases "recipeResolution e d1 ?h ext dp cu data") auto
      have pl: "pipeline e d ext dp cu data = (resp, d2, calls1 @ calls2)"
        using c1 Inr p True rr by (simp add: pipeline_def Let_def)
      then have "CallSaveRecipe r \<in> set calls2" using assms(2) fr(1) by simp
      then have "recipeResolution e d1 ?h ext dp cu data
         = (if errors_Is err DeadlineExceeded
            then String 408 ''Database save timed out after 2 seconds''
            else String 500 (''failed to save recipe: failed to save recipe: '' @ Error err),
            d1, snd (snd (recipeResolution e d1 ?h ext dp cu data)))"
        using recipeResolution_save_failed[OF assms(1), where r = r and d = d1 and h = ?h
            and ext = ext and dp = dp and cu = cu and data = data] rr
        by simp
      with rr pl fr(2) show ?thesis by simp
    qed
  qed
qed

text \<open>
  C8. A failed write of the description is swallowed: the response of a run is the one
  of the run whose write succeeds, whatever the classification and whatever follows it,
  and on a cache miss whose classification succeeds the classification returns the
  client's answer and leaves the tables as they were. A failed write of a generated
  recipe is fatal: a run that reaches \<open>SaveRecipe\<close> and has it fail answers with an
  error (408 when the failure is the deadline, 500 otherwise) and stores no recipe.
\<close>

theorem metadata_save_swallowed_recipe_save_fatal:
  assumes "readUpload req = Inr (extension, imageData)"
  shows "fst (Upload (e\<lparr>faultSaveImageMetadata := Some err\<rparr>) d req)
           = fst (Upload (e\<lparr>faultSaveImageMetadata := None\<rparr>) d req)
       \<and> ((image_metadata d (GenerateImageHash (sha256hex e) imageData) = None
            \<or> image_metadata d (GenerateImageHash (sha256hex e) imageData) = Some '''')
           \<and> faultGetImageMetadata e = None
           \<and> IsFoodImage e imageData = (isFood, description, None)
          \<longrightarrow> classification (e\<lparr>faultSaveImageMetadata := Some err\<rparr>) d
                (GenerateImageHash (sha256hex e) imageData) imageData
               = (Inr (isFood, description), d,
                  [CallGetImageMetadata (GenerateImageHash (sha256hex e) imageData),
                   CallIsFoodImage imageData,
                   CallSaveImageMetadata (GenerateImageHash (sha256hex e) imageData)
                     description]))
       \<and> (CallSaveRecipe r
              \<in> set (snd (snd (Upload (e\<lparr>faultSaveRecipe := Some err'\<rparr>) d req)))
          \<longrightarrow> fst (Upload (e\<lparr>faultSaveRecipe := Some err'\<rparr>) d req)
                = (if errors_Is err' DeadlineExceeded
                   then String 408 ''Database save timed out after 2 seconds''
                   else String 500
                          (''failed to save recipe: failed to save recipe: '' @ Error err'))
              \<and> recipes (fst (snd (Upload (e\<lparr>faultSaveRecipe := Some err'\<rparr>) d req)))
                  = recipes d)"
proof -
  let ?h = "GenerateImageHash (sha256hex e) imageData"
  have a: "(image_metadata d ?h = None \<or> image_metadata d ?h = Some '''')
           \<and> faultGetImageMetadata e = None
           \<and> IsFoodImage e imageData = (isFood, description, None)
          \<longrightarrow> classification (e\<lparr>faultSaveImageMetadata := Some err\<rparr>) d ?h imageData
               = (Inr (isFood, description), d,
                  [CallGetImageMetadata ?h, CallIsFoodImage imageData,
                   CallSaveImageMetadata ?h description])"
    by (auto simp: classification_def GetImageMetadata_def SaveImageMetadata_def scanRow_def)
  have b: "fst (Upload (e\<lparr>faultSaveImageMetadata := Some err\<rparr>) d req)
           = fst (Upload (e\<lparr>faultSaveImageMetadata := None\<rparr>) d req)"
    using Upload_pipeline[OF assms(1)] pipeline_fault[where e = e and f = "Some err"]
      pipeline_fault[where e = e and f = None]
    by simp
  have c: "CallSaveRecipe r
              \<in> set (snd (snd (Upload (e\<lparr>faultSaveRecipe := Some err'\<rparr>) d req)))
          \<longrightarrow> fst (Upload (e\<lparr>faultSaveRecipe := Some err'\<rparr>) d req)
                = (if errors_Is err' DeadlineExceeded
                   then String 408 ''Database save timed out after 2 seconds''
                   else String 500
                          (''failed to save recipe: failed to save recipe: '' @ Error err'))
              \<and> recipes (fst (snd (Upload (e\<lparr>faultSaveRecipe := Some err'\<rparr>) d req)))
                  = recipes d"
    using pipeline_save_failed[where e = "e\<lparr>faultSaveRecipe := Some err'\<rparr>" and err = err'
        and r = r and d = d and ext = extension and dp = "queryDietaryPreference req"
        and cu = "queryCuisine req" and data = imageData]
      Upload_pipeline[OF assms(1)]
    by simp
  from a b c show ?thesis by blast
qed

theorem metadata_save_swallowed_recipe_save_fatal_witness:
  "classification (mockEnv\<lparr>faultSaveImageMetadata := Some (Errorf ''connection refused'')\<rparr>)
       emptyDb ''sha256:img'' ''img''
     = (Inr (True, ''mock gemini description''), emptyDb,
        [CallGetImageMetadata ''sha256:img'', CallIsFoodImage ''img'',
         CallSaveImageMetadata ''sha256:img'' ''mock gemini description''])
   \<and> fst (Upload (mockEnv\<lparr>faultSaveImageMetadata := Some (Errorf ''connection refused'')\<rparr>)
            emptyDb (pngUpload ''img'' '''' ''''))
     = JSONRecipe 200 storedRecipe
   \<and> fst (Upload (mockEnv\<lparr>faultSaveRecipe := Some DeadlineExceeded\<rparr>) emptyDb
            (pngUpload ''img'' '''' ''''))
     = String 408 ''Database save timed out after 2 seconds''
   \<and> recipes (fst (snd (Upload (mockEnv\<lparr>faultSaveRecipe := Some DeadlineExceeded\<rparr>) emptyDb
                          (pngUpload ''img'' '''' ''''))))
     = Map.empty
   \<and> fst (Upload (mockEnv\<lparr>IsFoodImage := (\<lambda>imageData. (False, ''NO dog sitting on grass'', None)),
                           faultSaveImageMetadata := Some (Errorf ''connection refused'')\<rparr>)
            emptyDb (pngUpload ''img'' '''' ''''))
     = JSONMessage 200 notFoodMessage"
proof -
  have rejected: "fst (Upload (mockEnv\<lparr>IsFoodImage := (\<lambda>imageData. (False, ''NO dog sitting on grass'', None)),
                           faultSaveImageMetadata := None\<rparr>)
            emptyDb (pngUpload ''img'' '''' ''''))
     = JSONMessage 200 notFoodMessage"
    using Upload_pipeline[OF readUpload_pngUpload, of _ emptyDb "''img''" "''''" "''''"]
    by (simp add: pngUpload_def pipeline_def classification_def
          GetImageMetadata_def SaveImageMetadata_def scanRow_def GenerateImageHash_def
          mockEnv_def emptyDb_def Let_def)
  have swallowed: "fst (Upload (mockEnv\<lparr>IsFoodImage := (\<lambda>imageData. (False, ''NO dog sitting on grass'', None)),
                           faultSaveImageMetadata := Some (Errorf ''connection refused'')\<rparr>)
            emptyDb (pngUpload ''img'' '''' ''''))
     = JSONMessage 200 notFoodMessage"
    using metadata_save_swallowed_recipe_save_fatal[where req = "pngUpload ''img'' '''' ''''"
        and extension = "''.png''" and imageData = "''img''" and d = emptyDb
        and e = "mockEnv\<lparr>IsFoodImage := (\<lambda>imageData. (False, ''NO dog sitting on grass'', None))\<rparr>"
        and err = "Errorf ''connection refused''"]
      readUpload_pngUpload[of "''img''" "''''" "''''"] rejected
    by simp
  have reach: "CallSaveRecipe storedRecipe
      \<in> set (snd (snd (Upload (mockEnv\<lparr>faultSaveRecipe := Some DeadlineExceeded\<rparr>) emptyDb
                          (pngUpload ''img'' '''' ''''))))"
    using Upload_pipeline[OF readUpload_pngUpload,
        of "mockEnv\<lparr>faultSaveRecipe := Some DeadlineExceeded\<rparr>" emptyDb "''img''" "''''" "''''"]
    by (simp add: pngUpload_def pipeline_def classification_def recipeResolution_def
          GetImageMetadata_def SaveImageMetadata_def GetRecipeByImageHash_def SaveRecipe_def
          scanRow_def saveImage_def saveInto_def GenerateImageHash_def
          mockEnv_def emptyDb_def storedRecipe_def noFaults_def Let_def)
  have saved: "fst (Upload (mockEnv\<lparr>faultSaveImageMetadata := None\<rparr>) emptyDb
                     (pngUpload ''img'' '''' ''''))
                 = JSONRecipe 200 storedRecipe"
    using Upload_pipeline[OF readUpload_pngUpload,
        of "mockEnv\<lparr>faultSaveImageMetadata := None\<rparr>" emptyDb "''img''" "''''" "''''"]
    by (simp add: pngUpload_def pipeline_def classification_def recipeResolution_def
          GetImageMetadata_def SaveImageMetadata_def GetRecipeByImageHash_def SaveRecipe_def
          scanRow_def saveImage_def saveInto_def GenerateImageHash_def
          mockEnv_def emptyDb_def storedRecipe_def noFaults_def Let_def)
  show ?thesis
    using metadata_save_swallowed_recipe_save_fatal[where req = "pngUpload ''img'' '''' ''''"
        and extension = "''.png''" and imageData = "''img''" and d = emptyDb and e = mockEnv
        and isFood = True and description = "''mock gemini description''"
        and r = storedRecipe and err' = DeadlineExceeded
        and err = "Errorf ''connection refused''"]
      readUpload_pngUpload[of "''img''" "''''" "''''"] reach saved swallowed
    by (simp add: mockEnv_def emptyDb_def GenerateImageHash_def)
qed

text \<open>
  C4. The claim: a deadline that elapses during the classification gives a timeout
  error that can be told from a generic one, and no recipe is generated. No recipe is
  generated, but the branch of \<open>IsFoodImage\<close> (lines 126 to 129) does not look for
  \<open>context.DeadlineExceeded\<close> as the branches of \<open>GetRecipeByImageHash\<close>,
  \<open>GenerateRecipe\<close> and \<open>SaveRecipe\<close> do: the run answers 500 with the prefix
  \<open>gemini err\<close>, as it does for any other error of the client, where the same
  deadline in \<open>GenerateRecipe\<close> answers 408.
\<close>

theorem classification_deadline_answers_500:
  "Upload (mockEnv\<lparr>IsFoodImage := (\<lambda>imageData. (False, '''', Some DeadlineExceeded))\<rparr>)
       emptyDb (pngUpload ''img'' '''' '''')
     = (String 500 ''gemini err: context deadline exceeded'', emptyDb,
        [CallGetImageMetadata ''sha256:img'', CallIsFoodImage ''img''])
   \<and> Upload (mockEnv\<lparr>IsFoodImage := (\<lambda>imageData. (False, '''', Some (Errorf ''googleapi: Error 503'')))\<rparr>)
       emptyDb (pngUpload ''img'' '''' '''')
     = (String 500 ''gemini err: googleapi: Error 503'', emptyDb,
        [CallGetImageMetadata ''sha256:img'', CallIsFoodImage ''img''])
   \<and> fst (Upload (mockEnv\<lparr>GenerateRecipe := (\<lambda>imageData dietaryPreference cuisine. Err DeadlineExceeded)\<rparr>)
       emptyDb (pngUpload ''img'' '''' ''''))
     = String 408 ''Gemini API call timed out after 45 seconds''"
proof -
  have u: "\<And>e. Upload e emptyDb (pngUpload ''img'' '''' '''')
             = pipeline e emptyDb ''.png'' '''' '''' ''img''"
    using Upload_pipeline[OF readUpload_pngUpload, of _ emptyDb "''img''" "''''" "''''"]
    by (simp add: pngUpload_def)
  show ?thesis
    unfolding u
    by (simp add: pipeline_def classification_def recipeResolution_def
          GetImageMetadata_def SaveImageMetadata_def GetRecipeByImageHash_def
          scanRow_def GenerateImageHash_def mockEnv_def emptyDb_def Let_def)
qed

text \<open>
  C10. The cloud provider's \<open>GenerateRecipe\<close> classifies the image first, and when
  that classification returns \<open>isFood = false\<close> it returns the sentinel
  \<open>ErrNotFoodImage\<close> and no recipe, whatever the model would answer to the recipe
  prompt.
\<close>

theorem gemini_GenerateRecipe_not_food:
  assumes "gemini_IsFoodImage model imageData = (False, description, None)"
  shows "gemini_GenerateRecipe decode model imageData dietaryPreference cuisine
           = Err ErrNotFoodImage"
  using assms by (simp add: gemini_GenerateRecipe_def)

theorem gemini_GenerateRecipe_not_food_witness:
  "gemini_IsFoodImage (modelAnswering ''NO dog sitting on grass'') ''img''
     = (False, ''NO dog sitting on grass'', None)
   \<and> gemini_GenerateRecipe (\<lambda>text. Decoded mockRecipe)
        (modelAnswering ''NO dog sitting on grass'') ''img'' ''vegan'' ''thai''
     = Err ErrNotFoodImage"
proof -
  have nf: "gemini_IsFoodImage (modelAnswering ''NO dog sitting on grass'') ''img''
              = (False, ''NO dog sitting on grass'', None)"
    unfolding modelAnswering_def by code_simp
  from gemini_GenerateRecipe_not_food[OF nf] nf show ?thesis by simp
qed

lemma recipeResolution_not_food_fallback:
  assumes "recipes d h = None" and "faultGetRecipe e = None"
    and "GenerateRecipe e data dp cu = Err ErrNotFoodImage"
  shows "recipeResolution e d h ext dp cu data
           = (String 400 notFoodFallback, d,
              [CallGetRecipeByImageHash h, CallGenerateRecipe data dp cu])"
  using assms
  by (simp add: recipeResolution_def GetRecipeByImageHash_def scanRow_def Let_def)




lemma nth_in_drop: "i \<le> j \<Longrightarrow> j < length xs \<Longrightarrow> xs ! j \<in> set (drop i xs)"
proof -
  assume le: "i \<le> j" and lt: "j < length xs"
  then have "drop i xs ! (j - i) = xs ! j" by simp
  moreover have "j - i < length (drop i xs)" using le lt by simp
  ultimately show ?thesis by (metis nth_mem)
qed


lemma takeWhile_le_index:
  assumes "i < length xs" and "\<not> P (xs ! i)"
  shows "length (takeWhile P xs) \<le> i"
proof (rule ccontr)
  assume "\<not> length (takeWhile P xs) \<le> i"
  then have lt: "i < length (takeWhile P xs)" by simp
  then have "takeWhile P xs ! i = xs ! i" by (rule takeWhile_nth)
  moreover have "takeWhile P xs ! i \<in> set (takeWhile P xs)" using lt by (rule nth_mem)
  ultimately have "P (xs ! i)" using set_takeWhileD by metis
  with assms(2) show False by simp
qed

lemma hasBracePair_positions:
  "hasBracePair reply
     = (\<exists>i j. i < j \<and> j < length reply \<and> reply ! i = CHR ''{'' \<and> reply ! j = CHR ''}'')"
proof
  let ?n = "length (takeWhile (\<lambda>c. c \<noteq> CHR ''{'') reply)"
  assume "hasBracePair reply"
  then have mem: "CHR ''}'' \<in> set (drop ?n reply)"
    by (simp add: hasBracePair_def dropWhile_eq_drop)
  then obtain k where k: "k < length (drop ?n reply)" "drop ?n reply ! k = CHR ''}''"
    by (auto simp: in_set_conv_nth)
  then have j: "?n + k < length reply" "reply ! (?n + k) = CHR ''}''"
    by simp_all
  then have n: "?n < length reply" by simp
  then have open_at: "reply ! ?n = CHR ''{''"
    using nth_length_takeWhile[of "\<lambda>c. c \<noteq> CHR ''{''" reply] by simp
  with j have "k \<noteq> 0" by (cases k) auto
  then have "?n < ?n + k" by simp
  with j open_at
  show "\<exists>i j. i < j \<and> j < length reply \<and> reply ! i = CHR ''{'' \<and> reply ! j = CHR ''}''"
    by blast
next
  let ?n = "length (takeWhile (\<lambda>c. c \<noteq> CHR ''{'') reply)"
  assume "\<exists>i j. i < j \<and> j < length reply \<and> reply ! i = CHR ''{'' \<and> reply ! j = CHR ''}''"
  then obtain i j where ij: "i < j" "j < length reply" "reply ! i = CHR ''{''"
    "reply ! j = CHR ''}''"
    by blast
  then have "?n \<le> i"
    using takeWhile_le_index[of i reply "\<lambda>c. c \<noteq> CHR ''{''"] by simp
  with ij have "?n \<le> j" by simp
  then have "reply ! j \<in> set (drop ?n reply)"
    using ij(2) by (rule nth_in_drop)
  with ij(4) show "hasBracePair reply"
    by (simp add: hasBracePair_def dropWhile_eq_drop)
qed




















end
